theory Spec2Isabelle
  imports Complex_Main "HOL-Library.Word" "HOL-Library.AList"
begin

section \<open>JavaScript values\<close>

text \<open>
  A JavaScript string is a sequence of UTF-16 code units; \<open>length\<close> on the model is
  the \<^verbatim>\<open>.length\<close> of the source. \<open>js\<close> embeds the (ASCII) string literals of the
  source.
\<close>

type_synonym js_string = "16 word list"

definition js :: "string \<Rightarrow> js_string" where
  "js s = map of_char s"

text \<open>
  White space as \<^verbatim>\<open>String.prototype.trim\<close> and the regular expression class
  \<^verbatim>\<open>\s\<close> read it (ECMAScript WhiteSpace and LineTerminator).
\<close>

definition is_space :: "16 word \<Rightarrow> bool" where
  "is_space c =
     (c \<in> {0x09, 0x0A, 0x0B, 0x0C, 0x0D, 0x20, 0xA0, 0x1680, 0x2028, 0x2029, 0x202F,
            0x205F, 0x3000, 0xFEFF}
      \<or> (0x2000 \<le> c \<and> c \<le> 0x200A))"

definition is_digit :: "16 word \<Rightarrow> bool" where
  "is_digit c = (0x30 \<le> c \<and> c \<le> 0x39)"

definition trim :: "js_string \<Rightarrow> js_string" where
  "trim s = rev (dropWhile is_space (rev (dropWhile is_space s)))"

text \<open>\<^verbatim>\<open>s.replace(/\s+/g, '')\<close>: every run of white space is removed.\<close>

definition remove_spaces :: "js_string \<Rightarrow> js_string" where
  "remove_spaces s = filter (\<lambda>c. \<not> is_space c) s"

text \<open>
  \<^verbatim>\<open>toLowerCase\<close> on the letters A to Z. On other code units JavaScript applies the
  Unicode case mapping, which is not modelled: they are left as they are.
\<close>

definition toLowerCase :: "js_string \<Rightarrow> js_string" where
  "toLowerCase s = map (\<lambda>c. if 0x41 \<le> c \<and> c \<le> 0x5A then c + 0x20 else c) s"

fun starts_with :: "js_string \<Rightarrow> js_string \<Rightarrow> bool" where
  "starts_with [] s = True"
| "starts_with (p # ps) [] = False"
| "starts_with (p # ps) (c # cs) = (p = c \<and> starts_with ps cs)"

text \<open>\<^verbatim>\<open>s.includes(t)\<close>: \<open>t\<close> occurs in \<open>s\<close> as a contiguous run.\<close>

fun js_includes :: "js_string \<Rightarrow> js_string \<Rightarrow> bool" where
  "js_includes [] t = (t = [])"
| "js_includes (c # cs) t = (starts_with t (c # cs) \<or> js_includes cs t)"

text \<open>The decimal digits of a number, as a template literal prints an HTTP status.\<close>

fun show_nat :: "nat \<Rightarrow> js_string" where
  "show_nat n =
     (if n < 10 then [of_nat (48 + n)]
      else show_nat (n div 10) @ [of_nat (48 + n mod 10)])"

declare show_nat.simps [simp del]

text \<open>
  The values \<^verbatim>\<open>JSON.parse\<close> produces, and \<^verbatim>\<open>undefined\<close>. An object lists its own
  properties (distinct keys), in order. Numbers are the reals a double denotes; only
  whether a number is zero is ever read.
\<close>

datatype js_value =
    JUndefined
  | JNull
  | JBool bool
  | JNum real
  | JStr js_string
  | JArr "js_value list"
  | JObj "(js_string \<times> js_value) list"

datatype js_error = TypeError

fun truthy :: "js_value \<Rightarrow> bool" where
  "truthy JUndefined = False"
| "truthy JNull = False"
| "truthy (JBool b) = b"
| "truthy (JNum r) = (r \<noteq> 0)"
| "truthy (JStr s) = (s \<noteq> [])"
| "truthy (JArr xs) = True"
| "truthy (JObj kvs) = True"

text \<open>\<^verbatim>\<open>a || b\<close>\<close>

definition js_or :: "js_value \<Rightarrow> js_value \<Rightarrow> js_value" where
  "js_or a b = (if truthy a then a else b)"

text \<open>
  \<^verbatim>\<open>v.k\<close> for a key that is no prototype property (\<^verbatim>\<open>error\<close>, \<^verbatim>\<open>message\<close>,
  \<^verbatim>\<open>user\<close>): reading a property of \<^verbatim>\<open>null\<close> or \<^verbatim>\<open>undefined\<close> throws a
  TypeError, a missing property reads as \<^verbatim>\<open>undefined\<close>.
\<close>

fun get_prop :: "js_value \<Rightarrow> js_string \<Rightarrow> js_error + js_value" where
  "get_prop JUndefined k = Inl TypeError"
| "get_prop JNull k = Inl TypeError"
| "get_prop (JObj kvs) k = (case map_of kvs k of None \<Rightarrow> Inr JUndefined | Some v \<Rightarrow> Inr v)"
| "get_prop v k = Inr JUndefined"

text \<open>\<^verbatim>\<open>v?.k\<close>\<close>

definition opt_chain :: "js_value \<Rightarrow> js_string \<Rightarrow> js_value" where
  "opt_chain v k = (case get_prop v k of Inl e \<Rightarrow> JUndefined | Inr x \<Rightarrow> x)"

text \<open>
  What the engine decides and the source does not: the string conversion of a value
  that is not a string (\<^verbatim>\<open>new Error(v)\<close> applies it), and the message of the
  TypeError thrown when a property of \<^verbatim>\<open>null\<close> is read. Both are parameters.
\<close>

record js_runtime =
  ToString :: "js_value \<Rightarrow> js_string"
  TypeError_message :: js_string

definition to_string :: "js_runtime \<Rightarrow> js_value \<Rightarrow> js_string" where
  "to_string rt v = (case v of JStr s \<Rightarrow> s | _ \<Rightarrow> ToString rt v)"

section \<open>The environment, requests and effects\<close>

text \<open>
  The base URL is an environment variable: unset, or a string. \<^verbatim>\<open>!API_BASE_URL\<close>
  holds when it is unset or empty; a template literal prints an unset variable as
  \<^verbatim>\<open>undefined\<close>.
\<close>

definition unconfigured :: "js_string option \<Rightarrow> bool" where
  "unconfigured base = (case base of None \<Rightarrow> True | Some b \<Rightarrow> b = [])"

definition template :: "js_string option \<Rightarrow> js_string" where
  "template base = (case base of None \<Rightarrow> js ''undefined'' | Some b \<Rightarrow> b)"

datatype http_method = GET | POST

datatype credentials = Include

text \<open>
  A call of \<^verbatim>\<open>fetch\<close>. The body is the value handed to \<^verbatim>\<open>JSON.stringify\<close>;
  \<open>req_credentials = None\<close> is a call that sets no \<^verbatim>\<open>credentials\<close> option.
\<close>

record request =
  req_url :: js_string
  req_method :: http_method
  req_headers :: "(js_string \<times> js_string) list"
  req_body :: "js_value option"
  req_credentials :: "credentials option"

text \<open>
  A response with its body received: the status, the body as \<^verbatim>\<open>res.text()\<close> gives
  it, and as \<^verbatim>\<open>res.json()\<close> gives it (\<open>None\<close> when the body is no JSON and the
  promise rejects). A rejected \<^verbatim>\<open>fetch\<close> carries the \<^verbatim>\<open>message\<close> of its error.
\<close>

record response =
  res_status :: nat
  res_text :: js_string
  res_json :: "js_value option"

definition ok :: "response \<Rightarrow> bool" where
  "ok r = (200 \<le> res_status r \<and> res_status r \<le> 299)"

datatype fetch_result = Rejected js_string | Resolved response

type_synonym network = "request \<Rightarrow> fetch_result"

datatype toast_kind = Toast_error | Toast_loading | Toast_success

text \<open>
  What a handler does besides updating its component's state, in order. A toast has its
  message and its \<^verbatim>\<open>description\<close> option (\<^verbatim>\<open>undefined\<close> when not given); toast
  ids, durations and console output are left out.
\<close>

datatype effect =
    Fetch request
  | Toast toast_kind js_string js_value
  | Router_push js_string
  | Router_refresh
  | Focus js_string

definition fetches :: "effect list \<Rightarrow> request list" where
  "fetches es = concat (map (\<lambda>e. case e of Fetch r \<Rightarrow> [r] | _ \<Rightarrow> []) es)"

section \<open>The greeting page (src/app/page.tsx)\<close>



section \<open>The login page (src/app/login/page.tsx)\<close>

text \<open>
  \<^verbatim>\<open>formSchema\<close> and the checks of a zod string schema. A string schema runs its
  checks in order, every one of them: \<^verbatim>\<open>trim\<close> replaces the value, the others add
  an issue with their message when the value (as trimmed so far) fails. The test for
  the shape of an email address is zod's own regular expression, a parameter here.
\<close>

datatype check =
    CkTrim
  | CkMin nat js_string
  | CkEmail js_string
  | CkRegex "js_string \<Rightarrow> bool" js_string

fun apply_check :: "check \<Rightarrow> js_string \<Rightarrow> js_string" where
  "apply_check CkTrim v = trim v"
| "apply_check c v = v"

fun check_issue :: "(js_string \<Rightarrow> bool) \<Rightarrow> check \<Rightarrow> js_string \<Rightarrow> js_string list" where
  "check_issue is_email CkTrim v = []"
| "check_issue is_email (CkMin n m) v = (if length v < n then [m] else [])"
| "check_issue is_email (CkEmail m) v = (if is_email v then [] else [m])"
| "check_issue is_email (CkRegex re m) v = (if re v then [] else [m])"

text \<open>The parsed value and the messages of the issues, in the order of the checks.\<close>

fun string_parse :: "(js_string \<Rightarrow> bool) \<Rightarrow> check list \<Rightarrow> js_string \<Rightarrow> js_string \<times> js_string list" where
  "string_parse is_email [] v = (v, [])"
| "string_parse is_email (c # cs) v =
     (let v1 = apply_check c v;
          (v', ms) = string_parse is_email cs v1
      in (v', check_issue is_email c v1 @ ms))"

record FormData =
  email :: js_string
  password :: js_string

datatype login_field = Login_email | Login_password

definition formSchema_email :: "check list" where
  "formSchema_email = [CkEmail (js ''Invalid email address'')]"

definition formSchema_password :: "check list" where
  "formSchema_password = [CkMin 6 (js ''Password must be at least 6 characters'')]"

text \<open>
  \<^verbatim>\<open>zodResolver(formSchema)\<close>: the parsed record, or for each field with an issue
  the message of its first issue.
\<close>

definition formSchema :: "(js_string \<Rightarrow> bool) \<Rightarrow> FormData \<Rightarrow> (login_field \<rightharpoonup> js_string) + FormData" where
  "formSchema is_email d =
     (let (e, es) = string_parse is_email formSchema_email (email d);
          (p, ps) = string_parse is_email formSchema_password (password d)
      in if es = [] \<and> ps = [] then Inr \<lparr>email = e, password = p\<rparr>
         else Inl ((if es = [] then Map.empty else [Login_email \<mapsto> hd es])
                   ++ (if ps = [] then Map.empty else [Login_password \<mapsto> hd ps])))"

text \<open>
  The state of \<^verbatim>\<open>LoginPageContent\<close>: \<^verbatim>\<open>error\<close> and \<^verbatim>\<open>message\<close> are
  \<^verbatim>\<open>null\<close> or a value. The form is rendered once \<^verbatim>\<open>checkingAuth\<close> is false; until
  then the loading screen is.
\<close>

record LoginPageContent =
  error :: js_value
  message :: js_value
  checkingAuth :: bool

definition LoginPageContent_init :: LoginPageContent where
  "LoginPageContent_init = \<lparr>error = JNull, message = JNull, checkingAuth = True\<rparr>"

definition renders_form :: "LoginPageContent \<Rightarrow> bool" where
  "renders_form s = (\<not> checkingAuth s)"

definition session_request :: "js_string option \<Rightarrow> request" where
  "session_request base =
     \<lparr>req_url = template base @ js ''/api/auth/session'', req_method = GET,
      req_headers = [], req_body = None, req_credentials = Some Include\<rparr>"

text \<open>The effect run on the first display of the page (\<^verbatim>\<open>useEffect\<close>).\<close>

definition sessionCheck :: "js_string option \<Rightarrow> network \<Rightarrow> LoginPageContent \<Rightarrow> LoginPageContent \<times> effect list" where
  "sessionCheck base net s =
     (if unconfigured base then
        (s\<lparr>checkingAuth := False\<rparr>,
         [Toast Toast_error (js ''Configuration error: Cannot connect to services.'') JUndefined])
      else
        (case net (session_request base) of
           Resolved res \<Rightarrow>
             (if ok res then
                (let data = (case res_json res of None \<Rightarrow> JNull | Some v \<Rightarrow> v)
                 in if truthy (opt_chain data (js ''user''))
                    then (s, [Fetch (session_request base), Router_push (js ''/'')])
                    else (s\<lparr>checkingAuth := False\<rparr>, [Fetch (session_request base)]))
              else (s\<lparr>checkingAuth := False\<rparr>, [Fetch (session_request base)]))
         | Rejected err \<Rightarrow>
             (s\<lparr>checkingAuth := False\<rparr>,
              [Fetch (session_request base),
               Toast Toast_error (js ''Could not check session status.'') JUndefined])))"

definition login_body :: "js_string \<Rightarrow> js_string \<Rightarrow> js_value" where
  "login_body e p = JObj [(js ''email'', JStr e), (js ''password'', JStr p)]"

definition login_request :: "js_string option \<Rightarrow> js_string \<Rightarrow> js_string \<Rightarrow> request" where
  "login_request base e p =
     \<lparr>req_url = template base @ js ''/api/auth/login'', req_method = POST,
      req_headers = [(js ''Content-Type'', js ''application/json'')],
      req_body = Some (login_body e p), req_credentials = Some Include\<rparr>"

definition login_failed_status :: "nat \<Rightarrow> js_string" where
  "login_failed_status n = js ''Login failed (status '' @ show_nat n @ js '')''"

text \<open>
  The message of a response that is not ok: the inner \<^verbatim>\<open>try\<close> catches both the
  rejected \<^verbatim>\<open>res.json()\<close> and the TypeError of reading a property of \<^verbatim>\<open>null\<close>.
\<close>

definition onSubmit_errorMessage :: "response \<Rightarrow> js_value" where
  "onSubmit_errorMessage res =
     (case res_json res of
        None \<Rightarrow> JStr (login_failed_status (res_status res))
      | Some errorData \<Rightarrow>
          (case get_prop errorData (js ''error'') of
             Inl e \<Rightarrow> JStr (login_failed_status (res_status res))
           | Inr err \<Rightarrow>
               js_or err (js_or (opt_chain errorData (js ''message''))
                                (JStr (login_failed_status (res_status res))))))"

definition onSubmit :: "js_string option \<Rightarrow> network \<Rightarrow> FormData \<Rightarrow> LoginPageContent \<Rightarrow> LoginPageContent \<times> effect list" where
  "onSubmit base net d s =
     (if unconfigured base then
        (s, [Toast Toast_error (js ''Configuration error: Cannot perform login.'') JUndefined])
      else
        (let s1 = s\<lparr>error := JNull, message := JNull\<rparr>;
             req = login_request base (email d) (password d);
             started = [Toast Toast_loading (js ''Signing you in...'') JUndefined, Fetch req]
         in case net req of
              Resolved res \<Rightarrow>
                (if ok res then
                   (s1\<lparr>message := JStr (js ''Redirecting to your dashboard...'')\<rparr>,
                    started @ [Toast Toast_success (js ''Login successful'') JUndefined,
                               Router_push (js ''/''), Router_refresh])
                 else
                   (s1\<lparr>error := onSubmit_errorMessage res\<rparr>,
                    started @ [Toast Toast_error (js ''Login Failed'')
                                 (JStr (js ''Please check your credentials.''))]))
            | Rejected err \<Rightarrow>
                (s1\<lparr>error := JStr (js ''Login failed. Please check your connection and try again.'')\<rparr>,
                 started @ [Toast Toast_error
                              (js ''Login failed. Please check your connection and try again.'')
                              JUndefined])))"

text \<open>
  \<^verbatim>\<open>handleSubmit(onSubmit)\<close> of the form library: the resolver runs first, and
  \<^verbatim>\<open>onSubmit\<close> is called with the parsed record only when it reports no issue.
  The field errors are the library's state, returned beside the component's.
\<close>

definition login_submit :: "(js_string \<Rightarrow> bool) \<Rightarrow> js_string option \<Rightarrow> network \<Rightarrow> FormData \<Rightarrow> LoginPageContent \<Rightarrow> (login_field \<rightharpoonup> js_string) \<times> LoginPageContent \<times> effect list" where
  "login_submit is_email base net d s =
     (case formSchema is_email d of
        Inl errors \<Rightarrow> (errors, s, [])
      | Inr data \<Rightarrow> (Map.empty, onSubmit base net data s))"

section \<open>The second login page (src/unnamed/part_000)\<close>

record LoginPage =
  login_email :: js_string
  login_password :: js_string
  login_error :: js_value
  login_loading :: bool

text \<open>
  \<^verbatim>\<open>res.json().catch(() => ({}))\<close> gives the empty object for a body that is no
  JSON; a body that is \<^verbatim>\<open>null\<close> makes \<^verbatim>\<open>errorData.error\<close> throw, which the outer
  \<^verbatim>\<open>catch\<close> reports as a connection error. \<^verbatim>\<open>finally\<close> resets \<^verbatim>\<open>loading\<close>.
\<close>

definition handleSubmit :: "js_string option \<Rightarrow> network \<Rightarrow> LoginPage \<Rightarrow> LoginPage \<times> effect list" where
  "handleSubmit base net s =
     (if login_email s = [] \<or> login_password s = [] then
        (s, [Toast Toast_error (js ''Please enter your email and password'') JUndefined])
      else if unconfigured base then
        (s, [Toast Toast_error (js ''Configuration error: Cannot connect to services'') JUndefined])
      else
        (let req = login_request base (login_email s) (login_password s);
             started = [Toast Toast_loading (js ''Signing you in...'') JUndefined, Fetch req];
             connection_error =
               (s\<lparr>login_error := JStr (js ''Please check your connection and try again''),
                  login_loading := False\<rparr>,
                started @ [Toast Toast_error (js ''Connection error'') JUndefined])
         in case net req of
              Resolved res \<Rightarrow>
                (if ok res then
                   (s\<lparr>login_error := JNull, login_loading := False\<rparr>,
                    started @ [Toast Toast_success (js ''Login successful'') JUndefined,
                               Router_push (js ''/'')])
                 else
                   (case get_prop (case res_json res of None \<Rightarrow> JObj [] | Some v \<Rightarrow> v)
                                  (js ''error'') of
                      Inl e \<Rightarrow> connection_error
                    | Inr err \<Rightarrow>
                        (let errorMessage = js_or err (JStr (js ''Invalid credentials''))
                         in (s\<lparr>login_error := errorMessage, login_loading := False\<rparr>,
                             started @ [Toast Toast_error (js ''Login Failed'') errorMessage]))))
            | Rejected err \<Rightarrow> connection_error))"

section \<open>The signup page (src/unnamed/part_001)\<close>

text \<open>
  The keys of \<^verbatim>\<open>SignUpFormData\<close>; a record of the form is a function from them.
  \<open>field_key\<close> is the key as a string, which is also the id of the field's input.
\<close>

datatype field = Name | Email | MobileNumber | Password | ConfirmPassword

type_synonym SignUpFormData = "field \<Rightarrow> js_string"

type_synonym FormErrors = "(field \<times> js_string list) list"

fun field_key :: "field \<Rightarrow> js_string" where
  "field_key Name = js ''name''"
| "field_key Email = js ''email''"
| "field_key MobileNumber = js ''mobileNumber''"
| "field_key Password = js ''password''"
| "field_key ConfirmPassword = js ''confirmPassword''"

text \<open>
  \<^verbatim>\<open>/^\+?[\d\s-]{8,}$/.test(s)\<close>: after an optional plus sign, eight or more
  characters, each a digit, white space or a hyphen.
\<close>

definition mobile_regex :: "js_string \<Rightarrow> bool" where
  "mobile_regex s =
     (let t = (case s of [] \<Rightarrow> [] | c # cs \<Rightarrow> if c = 0x2B then cs else s)
      in 8 \<le> length t \<and> list_all (\<lambda>c. is_digit c \<or> is_space c \<or> c = 0x2D) t)"

definition signUpSchema_shape :: "(field \<times> check list) list" where
  "signUpSchema_shape =
     [(Name, [CkTrim, CkMin 1 (js ''Full name is required'')]),
      (Email, [CkTrim, CkMin 1 (js ''Email is required''),
               CkEmail (js ''Email address is invalid'')]),
      (MobileNumber, [CkTrim, CkMin 8 (js ''Please enter a valid mobile number.''),
                      CkRegex mobile_regex (js ''Please enter a valid mobile number.'')]),
      (Password, [CkMin 6 (js ''Password must be at least 6 characters'')]),
      (ConfirmPassword, [CkMin 1 (js ''Please confirm your password.'')])]"

text \<open>
  A zod object schema parses every key of its shape, in order, and collects the issues
  of all of them under the key's path.
\<close>

definition object_issues :: "(js_string \<Rightarrow> bool) \<Rightarrow> (field \<times> check list) list \<Rightarrow> SignUpFormData \<Rightarrow> (field \<times> js_string) list" where
  "object_issues is_email shape input =
     concat (map (\<lambda>(f, cs). map (Pair f) (snd (string_parse is_email cs (input f)))) shape)"

definition object_value :: "(js_string \<Rightarrow> bool) \<Rightarrow> (field \<times> check list) list \<Rightarrow> SignUpFormData \<Rightarrow> SignUpFormData" where
  "object_value is_email shape input =
     (\<lambda>f. case map_of shape f of
            None \<Rightarrow> input f
          | Some cs \<Rightarrow> fst (string_parse is_email cs (input f)))"

text \<open>
  \<^verbatim>\<open>signUpSchema.safeParse\<close>: the refinement runs on the parsed value also when
  checks of the fields have failed (they do not abort the parse), and adds its issue
  under \<^verbatim>\<open>confirmPassword\<close>. The result is the parsed record, or the issues.
\<close>

definition safeParse :: "(js_string \<Rightarrow> bool) \<Rightarrow> SignUpFormData \<Rightarrow> (field \<times> js_string) list + SignUpFormData" where
  "safeParse is_email input =
     (let data = object_value is_email signUpSchema_shape input;
          issues = object_issues is_email signUpSchema_shape input
                   @ (if data Password = data ConfirmPassword then []
                      else [(ConfirmPassword, js ''Passwords do not match'')])
      in if issues = [] then Inr data else Inl issues)"

text \<open>\<^verbatim>\<open>error.flatten().fieldErrors\<close>: the messages of each path, keys in order of
  their first issue.\<close>

definition fieldErrors :: "(field \<times> js_string) list \<Rightarrow> FormErrors" where
  "fieldErrors issues =
     foldl (\<lambda>acc (f, m).
              AList.update f ((case map_of acc f of None \<Rightarrow> [] | Some ms \<Rightarrow> ms) @ [m]) acc)
           [] issues"

record SignUpPage =
  formData :: SignUpFormData
  loading :: bool
  signup_error :: "js_string option"
  formErrors :: FormErrors
  success :: bool

definition initialState :: SignUpFormData where
  "initialState = (\<lambda>f. [])"

definition SignUpPage_init :: SignUpPage where
  "SignUpPage_init =
     \<lparr>formData = initialState, loading = False, signup_error = None, formErrors = [],
      success = False\<rparr>"

text \<open>\<^verbatim>\<open>formErrors[field]?.[0] || null\<close>, the message shown under a field.\<close>

definition getErrorMessage :: "FormErrors \<Rightarrow> field \<Rightarrow> js_string option" where
  "getErrorMessage errs f =
     (case map_of errs f of
        Some (m # ms) \<Rightarrow> if m = [] then None else Some m
      | _ \<Rightarrow> None)"

text \<open>
  \<^verbatim>\<open>formErrors.confirmPassword?.[0] === "Passwords do not match"\<close>
\<close>

definition mismatch_shown :: "FormErrors \<Rightarrow> bool" where
  "mismatch_shown errs =
     (case map_of errs ConfirmPassword of
        Some (m # ms) \<Rightarrow> m = js ''Passwords do not match''
      | _ \<Rightarrow> False)"

definition handleChange :: "field \<Rightarrow> js_string \<Rightarrow> SignUpPage \<Rightarrow> SignUpPage" where
  "handleChange f v s =
     (let cleared = (if map_of (formErrors s) f \<noteq> None
                     then AList.delete f (formErrors s) else formErrors s);
          cleared' = (if (f = Password \<or> f = ConfirmPassword) \<and> mismatch_shown (formErrors s)
                      then AList.delete ConfirmPassword cleared else cleared)
      in s\<lparr>formData := (formData s)(f := v), formErrors := cleared', signup_error := None\<rparr>)"

text \<open>
  The request body: \<^verbatim>\<open>confirmPassword\<close> is left out, and the mobile number is
  trimmed and loses its white space.
\<close>

definition signup_payload :: "SignUpFormData \<Rightarrow> js_value" where
  "signup_payload data =
     JObj [(js ''name'', JStr (data Name)),
           (js ''email'', JStr (data Email)),
           (js ''mobileNumber'', JStr (remove_spaces (trim (data MobileNumber)))),
           (js ''password'', JStr (data Password))]"

definition signup_request :: "js_string option \<Rightarrow> SignUpFormData \<Rightarrow> request" where
  "signup_request base data =
     \<lparr>req_url = template base @ js ''/api/auth/signup'', req_method = POST,
      req_headers = [(js ''Content-Type'', js ''application/json'')],
      req_body = Some (signup_payload data), req_credentials = None\<rparr>"

text \<open>
  \<^verbatim>\<open>handleSignUp\<close> up to its \<^verbatim>\<open>await fetch\<close>: the new state, the effects, and the
  request it now waits for, if any.
\<close>

definition handleSignUp_begin :: "(js_string \<Rightarrow> bool) \<Rightarrow> js_string option \<Rightarrow> SignUpPage \<Rightarrow> SignUpPage \<times> effect list \<times> request option" where
  "handleSignUp_begin is_email base s =
     (case safeParse is_email (formData s) of
        Inl issues \<Rightarrow>
          (let flattenedErrors = fieldErrors issues
           in (s\<lparr>signup_error := None, formErrors := flattenedErrors\<rparr>,
               Toast Toast_error (js ''Please fix the errors marked below.'') JUndefined
                 # (case flattenedErrors of [] \<Rightarrow> [] | (f, ms) # rest \<Rightarrow> [Focus (field_key f)]),
               None))
      | Inr data \<Rightarrow>
          (if unconfigured base then
             (s\<lparr>signup_error := Some (js ''Configuration error. Cannot proceed with signup.''),
                formErrors := []\<rparr>,
              [Toast Toast_error (js ''Configuration Error'') JUndefined], None)
           else
             (s\<lparr>signup_error := None, formErrors := [], loading := True\<rparr>,
              [Toast Toast_loading (js ''Creating your account...'') JUndefined],
              Some (signup_request base data))))"

definition signup_failed_status :: "nat \<Rightarrow> js_string" where
  "signup_failed_status n = js ''Signup failed (status '' @ show_nat n @ js '')''"

definition already_registered :: "js_string \<Rightarrow> bool" where
  "already_registered errorMessage =
     (js_includes (toLowerCase errorMessage) (js ''already registered'')
      \<or> js_includes (toLowerCase errorMessage) (js ''email_1''))"

text \<open>The \<^verbatim>\<open>catch\<close> and \<^verbatim>\<open>finally\<close> blocks, for an error with the given message.\<close>

definition signup_failed :: "js_string \<Rightarrow> SignUpPage \<Rightarrow> SignUpPage \<times> effect list" where
  "signup_failed err_message s =
     (let errorMessage = (if err_message = [] then js ''An unexpected error occurred''
                          else err_message)
      in if already_registered errorMessage then
           (s\<lparr>signup_error := Some errorMessage,
              formErrors := AList.update Email [js ''This email is already registered.'']
                              (formErrors s),
              loading := False\<rparr>,
            [Toast Toast_error (js ''Signup Failed'') (JStr errorMessage),
             Focus (js ''email'')])
         else
           (s\<lparr>signup_error := Some errorMessage, loading := False\<rparr>,
            [Toast Toast_error (js ''Signup Failed'') (JStr errorMessage)]))"

text \<open>\<^verbatim>\<open>handleSignUp\<close> from the moment its \<^verbatim>\<open>fetch\<close> settles.\<close>

definition handleSignUp_settle :: "js_runtime \<Rightarrow> fetch_result \<Rightarrow> SignUpPage \<Rightarrow> SignUpPage \<times> effect list" where
  "handleSignUp_settle rt result s =
     (case result of
        Rejected err_message \<Rightarrow> signup_failed err_message s
      | Resolved res \<Rightarrow>
          (let responseData =
                 (case res_json res of
                    None \<Rightarrow> JObj [(js ''error'', JStr (js ''Could not parse server response''))]
                  | Some v \<Rightarrow> v)
           in if \<not> ok res then
                (case get_prop responseData (js ''error'') of
                   Inl e \<Rightarrow> signup_failed (TypeError_message rt) s
                 | Inr err \<Rightarrow>
                     signup_failed
                       (to_string rt (js_or err (JStr (signup_failed_status (res_status res))))) s)
              else
                (s\<lparr>success := True, loading := False\<rparr>,
                 [Toast Toast_success (js ''Account Created!'')
                    (JStr (js ''Please check your email to verify your account.''))])))"

text \<open>A whole run of \<^verbatim>\<open>handleSignUp\<close>, with no other event while the request is out.\<close>

definition handleSignUp :: "js_runtime \<Rightarrow> (js_string \<Rightarrow> bool) \<Rightarrow> js_string option \<Rightarrow> network \<Rightarrow> SignUpPage \<Rightarrow> SignUpPage \<times> effect list" where
  "handleSignUp rt is_email base net s =
     (case handleSignUp_begin is_email base s of
        (s1, es, None) \<Rightarrow> (s1, es)
      | (s1, es, Some req) \<Rightarrow>
          (let (s2, es') = handleSignUp_settle rt (net req) s1
           in (s2, es @ Fetch req # es')))"

section \<open>The properties, as the specification words them\<close>

subsection \<open>The Validator\<close>

text \<open>
  The Validator of the specification: each field has its rules in order, each rule a
  condition on the record and the message reported when it fails. The outcome is
  ``valid'', or the map from each field to the message of its first violated rule.
\<close>

datatype 'k validation = Valid | Invalid "'k \<Rightarrow> js_string option"

definition first_violated :: "(('d \<Rightarrow> bool) \<times> js_string) list \<Rightarrow> 'd \<Rightarrow> js_string option" where
  "first_violated rules d =
     (case filter (\<lambda>(holds, m). \<not> holds d) rules of
        [] \<Rightarrow> None
      | (holds, m) # rest \<Rightarrow> Some m)"

text \<open>
  The rules of a registration as the specification lists them, on the values as they
  were entered: the email not empty, then of the shape of an email address; the
  password at least 6 long; the mobile number at least 8 long and of a pattern that
  allows a leading plus sign, digits, spaces and hyphens; the confirmation equal to the
  password. The specification lists no rule for the name. The messages are those the
  schema gives.
\<close>

definition spec_pattern :: "js_string \<Rightarrow> bool" where
  "spec_pattern s =
     (set (if s \<noteq> [] \<and> hd s = 0x2B then tl s else s) \<subseteq> set (js ''0123456789 -''))"

fun signup_rules :: "(js_string \<Rightarrow> bool) \<Rightarrow> field \<Rightarrow> ((SignUpFormData \<Rightarrow> bool) \<times> js_string) list" where
  "signup_rules is_email Name = []"
| "signup_rules is_email Email =
     [(\<lambda>d. d Email \<noteq> [], js ''Email is required''),
      (\<lambda>d. is_email (d Email), js ''Email address is invalid'')]"
| "signup_rules is_email MobileNumber =
     [(\<lambda>d. 8 \<le> length (d MobileNumber) \<and> spec_pattern (d MobileNumber),
       js ''Please enter a valid mobile number.'')]"
| "signup_rules is_email Password =
     [(\<lambda>d. 6 \<le> length (d Password), js ''Password must be at least 6 characters'')]"
| "signup_rules is_email ConfirmPassword =
     [(\<lambda>d. d ConfirmPassword = d Password, js ''Passwords do not match'')]"

definition all_fields :: "field list" where
  "all_fields = [Name, Email, MobileNumber, Password, ConfirmPassword]"

definition Validator_signup :: "(js_string \<Rightarrow> bool) \<Rightarrow> SignUpFormData \<Rightarrow> field validation" where
  "Validator_signup is_email d =
     (if list_all (\<lambda>f. first_violated (signup_rules is_email f) d = None) all_fields
      then Valid
      else Invalid (\<lambda>f. first_violated (signup_rules is_email f) d))"

text \<open>
  The rules of a registration with the amendments the signup page needs. Name, email
  and mobile number are read with the white space around them removed; the name must
  not be empty; the pattern of a mobile number is an optional plus sign followed by at
  least eight characters, each a digit, a white space character or a hyphen; the
  confirmation must not be empty, and then equal the password. White space, the
  digits, the removal of surrounding white space and the pattern are written out here
  on their own, without the functions of the model of the page.
\<close>

definition white_space :: "16 word list" where
  "white_space =
     [0x09, 0x0A, 0x0B, 0x0C, 0x0D, 0x20, 0xA0, 0x1680,
      0x2000, 0x2001, 0x2002, 0x2003, 0x2004, 0x2005, 0x2006, 0x2007, 0x2008, 0x2009, 0x200A,
      0x2028, 0x2029, 0x202F, 0x205F, 0x3000, 0xFEFF]"

text \<open>The value without its leading and its trailing run of white space.\<close>

definition strip :: "js_string \<Rightarrow> js_string" where
  "strip s =
     (let n = length (takeWhile (\<lambda>c. c \<in> set white_space) s);
          m = length (takeWhile (\<lambda>c. c \<in> set white_space) (rev s))
      in take (length s - n - m) (drop n s))"

definition phone_chars :: "js_string \<Rightarrow> bool" where
  "phone_chars t =
     (8 \<le> length t \<and> set t \<subseteq> set (js ''0123456789'') \<union> set white_space \<union> {0x2D})"

definition phone_pattern :: "js_string \<Rightarrow> bool" where
  "phone_pattern s = (phone_chars s \<or> (s \<noteq> [] \<and> hd s = 0x2B \<and> phone_chars (tl s)))"

fun signUpSchema_rules :: "(js_string \<Rightarrow> bool) \<Rightarrow> field \<Rightarrow> ((SignUpFormData \<Rightarrow> bool) \<times> js_string) list" where
  "signUpSchema_rules is_email Name =
     [(\<lambda>d. strip (d Name) \<noteq> [], js ''Full name is required'')]"
| "signUpSchema_rules is_email Email =
     [(\<lambda>d. strip (d Email) \<noteq> [], js ''Email is required''),
      (\<lambda>d. is_email (strip (d Email)), js ''Email address is invalid'')]"
| "signUpSchema_rules is_email MobileNumber =
     [(\<lambda>d. 8 \<le> length (strip (d MobileNumber)) \<and> phone_pattern (strip (d MobileNumber)),
       js ''Please enter a valid mobile number.'')]"
| "signUpSchema_rules is_email Password =
     [(\<lambda>d. 6 \<le> length (d Password), js ''Password must be at least 6 characters'')]"
| "signUpSchema_rules is_email ConfirmPassword =
     [(\<lambda>d. d ConfirmPassword \<noteq> [], js ''Please confirm your password.''),
      (\<lambda>d. d ConfirmPassword = d Password, js ''Passwords do not match'')]"

definition Validator_signUpSchema :: "(js_string \<Rightarrow> bool) \<Rightarrow> SignUpFormData \<Rightarrow> field validation" where
  "Validator_signUpSchema is_email d =
     (if list_all (\<lambda>f. first_violated (signUpSchema_rules is_email f) d = None) all_fields
      then Valid
      else Invalid (\<lambda>f. first_violated (signUpSchema_rules is_email f) d))"

text \<open>The rules of a login: the email not empty, then of the shape of an email
  address; the password at least 6 long.\<close>

fun login_rules :: "(js_string \<Rightarrow> bool) \<Rightarrow> login_field \<Rightarrow> ((FormData \<Rightarrow> bool) \<times> js_string) list" where
  "login_rules is_email Login_email =
     [(\<lambda>d. email d \<noteq> [], js ''Invalid email address''),
      (\<lambda>d. is_email (email d), js ''Invalid email address'')]"
| "login_rules is_email Login_password =
     [(\<lambda>d. 6 \<le> length (password d), js ''Password must be at least 6 characters'')]"

definition Validator_login :: "(js_string \<Rightarrow> bool) \<Rightarrow> FormData \<Rightarrow> login_field validation" where
  "Validator_login is_email d =
     (if list_all (\<lambda>f. first_violated (login_rules is_email f) d = None)
           [Login_email, Login_password]
      then Valid
      else Invalid (\<lambda>f. first_violated (login_rules is_email f) d))"

text \<open>
  What the pages compute: the signup page parses, flattens the issues and shows
  \<^verbatim>\<open>getErrorMessage\<close> of each field; the login page shows the resolver's errors.
\<close>

definition validate_signup :: "(js_string \<Rightarrow> bool) \<Rightarrow> SignUpFormData \<Rightarrow> field validation" where
  "validate_signup is_email d =
     (case safeParse is_email d of
        Inr data \<Rightarrow> Valid
      | Inl issues \<Rightarrow> Invalid (getErrorMessage (fieldErrors issues)))"

definition validate_login :: "(js_string \<Rightarrow> bool) \<Rightarrow> FormData \<Rightarrow> login_field validation" where
  "validate_login is_email d =
     (case formSchema is_email d of Inr data \<Rightarrow> Valid | Inl errors \<Rightarrow> Invalid errors)"

text \<open>Notions the proofs use: the messages of one field among the issues, the issues
  of the signup schema, and the record it parses to.\<close>

definition msgs :: "field \<Rightarrow> (field \<times> js_string) list \<Rightarrow> js_string list" where
  "msgs f issues = map snd (filter (\<lambda>p. fst p = f) issues)"

definition signUp_issues :: "(js_string \<Rightarrow> bool) \<Rightarrow> SignUpFormData \<Rightarrow> (field \<times> js_string) list" where
  "signUp_issues is_email d =
     object_issues is_email signUpSchema_shape d
     @ (if d Password = d ConfirmPassword then []
        else [(ConfirmPassword, js ''Passwords do not match'')])"

definition parsed :: "SignUpFormData \<Rightarrow> SignUpFormData" where
  "parsed d = (\<lambda>f. if f = Name \<or> f = Email \<or> f = MobileNumber then trim (d f) else d f)"

subsection \<open>The session check\<close>

text \<open>A response carries a user payload: its body is a JSON object whose \<^verbatim>\<open>user\<close>
  is truthy.\<close>

definition has_user :: "response \<Rightarrow> bool" where
  "has_user res =
     (case res_json res of
        Some (JObj kvs) \<Rightarrow> (case map_of kvs (js ''user'') of Some u \<Rightarrow> truthy u | None \<Rightarrow> False)
      | _ \<Rightarrow> False)"

subsection \<open>The field error map\<close>





subsection \<open>Sample inputs\<close>

text \<open>
  A filled signup form and the same user's login forms, an email test that accepts its address (as zod's does) and
  nothing else, an engine, a base URL and servers that answer every request alike.
\<close>

definition ada :: SignUpFormData where
  "ada = (\<lambda>f. case f of
            Name \<Rightarrow> js ''Ada Lovelace''
          | Email \<Rightarrow> js ''ada@example.com''
          | MobileNumber \<Rightarrow> js ''+91 98765 43210''
          | Password \<Rightarrow> js ''secret1''
          | ConfirmPassword \<Rightarrow> js ''secret1'')"

definition ada_padded_mobile :: SignUpFormData where
  "ada_padded_mobile = ada(MobileNumber := js '' 1234567 '')"

definition ada_padded_email :: SignUpFormData where
  "ada_padded_email = ada(Email := js '' ada@example.com '')"

definition ada_login :: FormData where
  "ada_login = \<lparr>email = js ''ada@example.com'', password = js ''secret1''\<rparr>"

definition ada_page :: LoginPage where
  "ada_page =
     \<lparr>login_email = js ''ada@example.com'', login_password = js ''secret1'',
      login_error = JNull, login_loading = False\<rparr>"

definition accepts_ada :: "js_string \<Rightarrow> bool" where
  "accepts_ada e = (e = js ''ada@example.com'')"

definition engine :: js_runtime where
  "engine = \<lparr>ToString = (\<lambda>v. js ''[object Object]''), TypeError_message = js ''TypeError''\<rparr>"

definition example_base :: "js_string option" where
  "example_base = Some (js ''https://api.example.com'')"

definition server :: "nat \<Rightarrow> js_value option \<Rightarrow> network" where
  "server code body = (\<lambda>r. Resolved \<lparr>res_status = code, res_text = [], res_json = body\<rparr>)"

section \<open>Verification\<close>

subsection \<open>Helper facts\<close>

lemma fetches_simps:
  "fetches [] = []"
  "fetches (Fetch r # es) = r # fetches es"
  "fetches (Toast k m d # es) = fetches es"
  "fetches (Router_push u # es) = fetches es"
  "fetches (Router_refresh # es) = fetches es"
  "fetches (Focus i # es) = fetches es"
  by (simp_all add: fetches_def)

lemma fetches_append: "fetches (xs @ ys) = fetches xs @ fetches ys"
  by (simp add: fetches_def)

lemma js_nonempty: "js (c # cs) \<noteq> []"
  by (simp add: js_def)

lemma not_ok_401: "res_status res = 401 \<Longrightarrow> \<not> ok res"
  by (simp add: ok_def)

text \<open>Strings.\<close>

lemma starts_with_append: "starts_with t (t @ ys)"
  by (induction t) auto

lemma js_includes_append: "js_includes (xs @ t @ ys) t"
proof (induction xs)
  case Nil
  show ?case
  proof (cases "t @ ys")
    case Nil
    then show ?thesis by simp
  next
    case (Cons c cs)
    then show ?thesis using starts_with_append [of t ys] by simp
  qed
next
  case (Cons x xs)
  then show ?case by simp
qed

lemma login_failed_status_includes:
  "js_includes (login_failed_status n) (js ''status '' @ show_nat n)"
proof -
  have "login_failed_status n = js ''Login failed ('' @ (js ''status '' @ show_nat n) @ js '')''"
    by (simp add: login_failed_status_def js_def)
  then show ?thesis by (simp only: js_includes_append)
qed

lemma user_truthy_iff:
  "truthy (opt_chain (case res_json res of None \<Rightarrow> JNull | Some v \<Rightarrow> v) (js ''user'')) = has_user res"
  apply (simp add: has_user_def opt_chain_def split: option.split)
  apply (intro allI impI conjI)
  subgoal for v by (cases v) (simp_all split: option.split)
  done

lemma filter_dropWhile_space:
  "filter (\<lambda>c. \<not> is_space c) (dropWhile is_space xs) = filter (\<lambda>c. \<not> is_space c) xs"
  by (induction xs) auto

lemma remove_spaces_trim: "remove_spaces (trim x) = remove_spaces x"
  by (simp add: remove_spaces_def trim_def filter_dropWhile_space flip: rev_filter)

text \<open>The signup schema: its issues field by field, and the flattened error map.\<close>

lemma object_value_signUp: "object_value is_email signUpSchema_shape d = parsed d"
  by (rule ext) (simp add: object_value_def signUpSchema_shape_def parsed_def Let_def split: field.split)

lemma safeParse_issues:
  "safeParse is_email d =
     (if signUp_issues is_email d = [] then Inr (parsed d) else Inl (signUp_issues is_email d))"
  by (simp add: safeParse_def Let_def object_value_signUp signUp_issues_def parsed_def)

lemma msgs_simps:
  "msgs f [] = []"
  "msgs f (xs @ ys) = msgs f xs @ msgs f ys"
  "msgs f ((g, m) # xs) = (if g = f then m # msgs f xs else msgs f xs)"
  "msgs f (map (Pair g) ms) = (if g = f then ms else [])"
  by (simp_all add: msgs_def filter_map comp_def)

lemma msgs_nonempty_iff: "(msgs f issues \<noteq> []) = (f \<in> fst ` set issues)"
  by (auto simp add: msgs_def filter_empty_conv)

lemma map_of_fieldErrors_acc:
  "map_of (foldl (\<lambda>acc (f, m).
              AList.update f ((case map_of acc f of None \<Rightarrow> [] | Some ms \<Rightarrow> ms) @ [m]) acc)
           acc issues) f =
     (case map_of acc f of
        None \<Rightarrow> (if msgs f issues = [] then None else Some (msgs f issues))
      | Some old \<Rightarrow> Some (old @ msgs f issues))"
proof (induction issues arbitrary: acc)
  case Nil
  then show ?case by (simp add: msgs_simps split: option.split)
next
  case (Cons p ps)
  obtain g m where p: "p = (g, m)" by (cases p)
  show ?case
    by (simp add: p Cons.IH msgs_simps update_conv' split: option.split)
qed

lemma map_of_fieldErrors:
  "map_of (fieldErrors issues) f = (if msgs f issues = [] then None else Some (msgs f issues))"
  by (simp add: fieldErrors_def map_of_fieldErrors_acc)

lemma getErrorMessage_fieldErrors:
  "getErrorMessage (fieldErrors issues) f =
     (case msgs f issues of [] \<Rightarrow> None | m # ms \<Rightarrow> if m = [] then None else Some m)"
  by (simp add: getErrorMessage_def map_of_fieldErrors split: list.split)

lemma msgs_signUp_issues:
  "msgs f (signUp_issues is_email d) =
     (case f of
        Name \<Rightarrow> (if trim (d Name) = [] then [js ''Full name is required''] else [])
      | Email \<Rightarrow> (if trim (d Email) = [] then [js ''Email is required''] else [])
                 @ (if is_email (trim (d Email)) then [] else [js ''Email address is invalid''])
      | MobileNumber \<Rightarrow>
          (if length (trim (d MobileNumber)) < 8 then [js ''Please enter a valid mobile number.''] else [])
          @ (if mobile_regex (trim (d MobileNumber)) then [] else [js ''Please enter a valid mobile number.''])
      | Password \<Rightarrow> (if length (d Password) < 6 then [js ''Password must be at least 6 characters''] else [])
      | ConfirmPassword \<Rightarrow>
          (if d ConfirmPassword = [] then [js ''Please confirm your password.''] else [])
          @ (if d Password = d ConfirmPassword then [] else [js ''Passwords do not match'']))"
  by (cases f)
     (simp_all add: signUp_issues_def object_issues_def signUpSchema_shape_def msgs_simps Let_def)

lemma issues_empty_iff: "(issues = []) = (\<forall>f. msgs f issues = [])"
  using msgs_nonempty_iff [of _ issues] by (cases issues) force+

lemma is_space_white_space: "is_space c = (c \<in> set white_space)"
proof -
  have "(0x2000 \<le> c \<and> c \<le> 0x200A) = (8192 \<le> unat c \<and> unat c \<le> 8202)"
    by (simp add: word_le_nat_alt)
  also have "\<dots> = (unat c = 8192 \<or> unat c = 8193 \<or> unat c = 8194 \<or> unat c = 8195
      \<or> unat c = 8196 \<or> unat c = 8197 \<or> unat c = 8198 \<or> unat c = 8199 \<or> unat c = 8200
      \<or> unat c = 8201 \<or> unat c = 8202)"
    by arith
  finally show ?thesis
    by (simp add: is_space_def white_space_def word_unat_eq_iff) blast
qed

lemma is_digit_digits: "is_digit c = (c \<in> set (js ''0123456789''))"
proof -
  have "(0x30 \<le> c \<and> c \<le> 0x39) = (48 \<le> unat c \<and> unat c \<le> 57)"
    by (simp add: word_le_nat_alt)
  also have "\<dots> = (unat c = 48 \<or> unat c = 49 \<or> unat c = 50 \<or> unat c = 51 \<or> unat c = 52
      \<or> unat c = 53 \<or> unat c = 54 \<or> unat c = 55 \<or> unat c = 56 \<or> unat c = 57)"
    by arith
  finally show ?thesis
    by (simp add: is_digit_def js_def word_unat_eq_iff)
qed

lemma rev_dropWhile_rev:
  "rev (dropWhile P (rev u)) = take (length u - length (takeWhile P (rev u))) u"
proof -
  have "dropWhile P (rev u) = drop (length (takeWhile P (rev u))) (rev u)"
    by (rule dropWhile_eq_drop)
  then show ?thesis by (simp add: rev_drop)
qed

lemma takeWhile_rev_dropWhile:
  assumes "dropWhile P s \<noteq> []"
  shows "takeWhile P (rev s) = takeWhile P (rev (dropWhile P s))"
proof -
  from assms have "hd (dropWhile P s) \<in> set (rev (dropWhile P s))"
    by simp
  moreover from assms have "\<not> P (hd (dropWhile P s))"
    by (rule hd_dropWhile)
  moreover have "rev s = rev (dropWhile P s) @ rev (takeWhile P s)"
    by (simp flip: rev_append)
  ultimately show ?thesis
    by (metis takeWhile_append1)
qed

lemma strip_trim: "strip s = trim s"
proof -
  let ?P = "\<lambda>c. c \<in> set white_space"
  have P: "is_space = ?P"
    by (rule ext) (rule is_space_white_space)
  have d: "dropWhile ?P s = drop (length (takeWhile ?P s)) s"
    by (rule dropWhile_eq_drop)
  show ?thesis
  proof (cases "dropWhile ?P s = []")
    case True
    with d have "drop (length (takeWhile ?P s)) s = []"
      by (simp only:)
    then have "strip s = []"
      by (simp add: strip_def Let_def)
    moreover have "trim s = []"
      by (simp only: trim_def P True) simp
    ultimately show ?thesis by simp
  next
    case False
    have "trim s = take (length (dropWhile ?P s) - length (takeWhile ?P (rev (dropWhile ?P s))))
                     (dropWhile ?P s)"
      by (simp only: trim_def P rev_dropWhile_rev)
    also have "\<dots> = take (length s - length (takeWhile ?P s) - length (takeWhile ?P (rev s)))
                     (drop (length (takeWhile ?P s)) s)"
      using takeWhile_rev_dropWhile [OF False] d by simp
    finally show ?thesis
      by (simp add: strip_def Let_def)
  qed
qed

lemma plus_no_phone_char:
  "(0x2B::16 word) \<notin> set (js ''0123456789'') \<union> set white_space \<union> {0x2D}"
  by (simp add: js_def white_space_def)

lemma phone_chars_iff:
  "phone_chars t = (8 \<le> length t \<and> list_all (\<lambda>c. is_digit c \<or> is_space c \<or> c = 0x2D) t)"
  by (auto simp add: phone_chars_def list_all_iff is_digit_digits is_space_white_space)

lemma phone_pattern_regex: "phone_pattern s = mobile_regex s"
proof (cases s)
  case Nil
  then show ?thesis
    by (simp add: phone_pattern_def mobile_regex_def phone_chars_iff)
next
  case (Cons c cs)
  show ?thesis
  proof (cases "c = 0x2B")
    case True
    have "\<not> phone_chars (0x2B # cs)"
      using plus_no_phone_char by (simp add: phone_chars_def)
    then have "phone_pattern (0x2B # cs) = phone_chars cs"
      by (simp add: phone_pattern_def)
    moreover have "mobile_regex (0x2B # cs) = phone_chars cs"
      by (simp add: mobile_regex_def phone_chars_iff)
    ultimately show ?thesis
      by (simp add: Cons True)
  next
    case False
    then show ?thesis
      by (simp add: phone_pattern_def mobile_regex_def Cons phone_chars_iff)
  qed
qed

lemma first_violated_signUpSchema:
  "first_violated (signUpSchema_rules is_email f) d =
     (case msgs f (signUp_issues is_email d) of [] \<Rightarrow> None | m # ms \<Rightarrow> Some m)"
  by (cases f)
     (auto simp add: first_violated_def msgs_signUp_issues strip_trim phone_pattern_regex)

lemma first_msg_nonempty:
  "msgs f (signUp_issues is_email d) = m # ms \<Longrightarrow> m \<noteq> []"
  by (cases f) (auto simp add: msgs_signUp_issues js_nonempty split: if_splits)

lemma first_violated_login:
  "\<not> is_email [] \<Longrightarrow>
   first_violated (login_rules is_email f) d =
     (case f of
        Login_email \<Rightarrow> if is_email (email d) then None else Some (js ''Invalid email address'')
      | Login_password \<Rightarrow>
          if length (password d) < 6 then Some (js ''Password must be at least 6 characters'')
          else None)"
  by (cases f) (auto simp add: first_violated_def)

lemma formSchema_errors:
  "formSchema is_email d =
     (if is_email (email d) \<and> 6 \<le> length (password d) then Inr d
      else Inl (\<lambda>f. case f of
        Login_email \<Rightarrow> if is_email (email d) then None else Some (js ''Invalid email address'')
      | Login_password \<Rightarrow>
          if length (password d) < 6 then Some (js ''Password must be at least 6 characters'')
          else None))"
  by (auto simp add: formSchema_def formSchema_email_def formSchema_password_def Let_def
      fun_eq_iff map_add_def split: login_field.split)



text \<open>The two halves of \<^verbatim>\<open>handleSignUp\<close>.\<close>

lemma fetches_signup_failed: "fetches (snd (signup_failed m s)) = []"
  by (simp add: signup_failed_def Let_def fetches_simps)

lemma fetches_settle: "fetches (snd (handleSignUp_settle rt result s)) = []"
  by (simp add: handleSignUp_settle_def Let_def fetches_simps fetches_signup_failed
      split: fetch_result.split sum.split)

lemma begin_invalid:
  "signUp_issues is_email (formData s) \<noteq> [] \<Longrightarrow>
   handleSignUp_begin is_email base s =
     (s\<lparr>signup_error := None, formErrors := fieldErrors (signUp_issues is_email (formData s))\<rparr>,
      Toast Toast_error (js ''Please fix the errors marked below.'') JUndefined
        # (case fieldErrors (signUp_issues is_email (formData s)) of
             [] \<Rightarrow> [] | (f, ms) # rest \<Rightarrow> [Focus (field_key f)]),
      None)"
  by (simp add: handleSignUp_begin_def safeParse_issues Let_def)

lemma begin_valid:
  "signUp_issues is_email (formData s) = [] \<Longrightarrow>
   handleSignUp_begin is_email base s =
     (if unconfigured base then
        (s\<lparr>signup_error := Some (js ''Configuration error. Cannot proceed with signup.''),
           formErrors := []\<rparr>,
         [Toast Toast_error (js ''Configuration Error'') JUndefined], None)
      else
        (s\<lparr>signup_error := None, formErrors := [], loading := True\<rparr>,
         [Toast Toast_loading (js ''Creating your account...'') JUndefined],
         Some (signup_request base (parsed (formData s)))))"
  by (simp add: handleSignUp_begin_def safeParse_issues)

lemma fetches_handleSignUp:
  "fetches (snd (handleSignUp rt is_email base net s)) =
     (if signUp_issues is_email (formData s) = [] \<and> \<not> unconfigured base
      then [signup_request base (parsed (formData s))] else [])"
proof (cases "signUp_issues is_email (formData s) = []")
  case True
  then show ?thesis
    by (simp add: handleSignUp_def begin_valid fetches_simps fetches_append fetches_settle
        case_prod_beta)
next
  case False
  then show ?thesis
    by (simp add: handleSignUp_def begin_invalid fetches_simps split: list.split)
qed


lemma map_of_handleChange:
  "map_of (formErrors (handleChange f v s)) g =
     (if g = f then None
      else if g = ConfirmPassword \<and> f = Password \<and> mismatch_shown (formErrors s) then None
      else map_of (formErrors s) g)"
  by (auto simp add: handleChange_def Let_def delete_conv')











text \<open>The sample inputs.\<close>

lemma ada_parsed: "parsed ada = ada"
  by (rule ext) (simp add: parsed_def ada_def trim_def is_space_def js_def split: field.split)

lemma ada_issues: "signUp_issues accepts_ada ada = []"
  unfolding issues_empty_iff
proof
  fix f
  have t: "trim (ada g) = ada g" for g
    by (cases g) (simp_all add: ada_def trim_def is_space_def js_def)
  show "msgs f (signUp_issues accepts_ada ada) = []"
    by (cases f)
       (simp_all add: msgs_signUp_issues t,
        simp_all add: ada_def accepts_ada_def mobile_regex_def js_def is_digit_def is_space_def)
qed

lemma ada_valid: "safeParse accepts_ada ada = Inr ada"
  by (simp add: safeParse_issues ada_issues ada_parsed)

lemma ada_login_valid: "formSchema accepts_ada ada_login = Inr ada_login"
  by (simp add: formSchema_errors ada_login_def accepts_ada_def) (simp add: js_def)

lemma accepts_ada_empty: "\<not> accepts_ada []"
  by (simp add: accepts_ada_def js_def)

lemma ada_page_filled: "login_email ada_page \<noteq> [] \<and> login_password ada_page \<noteq> []"
  by (simp add: ada_page_def js_nonempty)

lemma example_base_configured: "\<not> unconfigured example_base"
  by (simp add: example_base_def unconfigured_def js_nonempty)

lemma empty_form_name: "msgs Name (signUp_issues is_email initialState) = [js ''Full name is required'']"
  by (simp add: msgs_signUp_issues initialState_def trim_def)


lemma show_nat_500: "show_nat 500 = js ''500''"
  by (simp add: show_nat.simps js_def)

lemma has_user_example:
  "has_user \<lparr>res_status = n, res_text = [],
             res_json = Some (JObj [(js ''user'', JObj [(js ''email'', JStr (js ''ada@example.com''))])])\<rparr>"
  by (simp add: has_user_def)

subsection \<open>One request per submission\<close>

text \<open>
  C1 (as the code has it): with the base URL configured, every submitted record that
  passed validation leads to exactly one call of fetch: a POST to the base URL followed
  by \<^verbatim>\<open>/api/auth/login\<close> or \<^verbatim>\<open>/api/auth/signup\<close>, with a JSON content type.
  Both login pages send it with \<^verbatim>\<open>credentials: 'include'\<close>; the signup page sets
  no credentials option. The second login page takes as validated a record with both
  fields filled.
\<close>

theorem one_post_per_submission:
  assumes "base = Some b" and "b \<noteq> []"
  shows "fetches (snd (onSubmit base net d s)) = [login_request base (email d) (password d)]
       \<and> (formSchema is_email d = Inr data \<longrightarrow>
            fetches (snd (snd (login_submit is_email base net d s)))
              = [login_request base (email data) (password data)])
       \<and> (login_email t \<noteq> [] \<and> login_password t \<noteq> [] \<longrightarrow>
            fetches (snd (handleSubmit base net t))
              = [login_request base (login_email t) (login_password t)])
       \<and> (safeParse is_email (formData u) = Inr data' \<longrightarrow>
            fetches (snd (handleSignUp rt is_email base net u)) = [signup_request base data'])
       \<and> login_request base e p =
            \<lparr>req_url = b @ js ''/api/auth/login'', req_method = POST,
             req_headers = [(js ''Content-Type'', js ''application/json'')],
             req_body = Some (login_body e p), req_credentials = Some Include\<rparr>
       \<and> signup_request base data' =
            \<lparr>req_url = b @ js ''/api/auth/signup'', req_method = POST,
             req_headers = [(js ''Content-Type'', js ''application/json'')],
             req_body = Some (signup_payload data'), req_credentials = None\<rparr>"
proof -
  have cfg: "\<not> unconfigured base"
    using assms by (simp add: unconfigured_def)
  have 1: "fetches (snd (onSubmit base net d' s)) = [login_request base (email d') (password d')]" for d'
    using cfg
    by (simp add: onSubmit_def Let_def fetches_simps fetches_append split: fetch_result.split)
  have 2: "formSchema is_email d = Inr data \<longrightarrow>
            fetches (snd (snd (login_submit is_email base net d s)))
              = [login_request base (email data) (password data)]"
    by (simp add: login_submit_def 1)
  have 3: "login_email t \<noteq> [] \<and> login_password t \<noteq> [] \<longrightarrow>
            fetches (snd (handleSubmit base net t))
              = [login_request base (login_email t) (login_password t)]"
    using cfg
    by (simp add: handleSubmit_def Let_def fetches_simps fetches_append
        split: fetch_result.split sum.split)
  have 4: "safeParse is_email (formData u) = Inr data' \<longrightarrow>
            fetches (snd (handleSignUp rt is_email base net u)) = [signup_request base data']"
    using cfg by (auto simp add: fetches_handleSignUp safeParse_issues split: if_splits)
  have 5: "login_request base e p =
            \<lparr>req_url = b @ js ''/api/auth/login'', req_method = POST,
             req_headers = [(js ''Content-Type'', js ''application/json'')],
             req_body = Some (login_body e p), req_credentials = Some Include\<rparr>"
    using assms by (simp add: login_request_def template_def)
  have 6: "signup_request base data' =
            \<lparr>req_url = b @ js ''/api/auth/signup'', req_method = POST,
             req_headers = [(js ''Content-Type'', js ''application/json'')],
             req_body = Some (signup_payload data'), req_credentials = None\<rparr>"
    using assms by (simp add: signup_request_def template_def)
  from 1 2 3 4 5 6 show ?thesis by blast
qed

theorem one_post_per_submission_witness:
  "fetches (snd (onSubmit example_base (server 200 None) ada_login LoginPageContent_init))
     = [login_request example_base (email ada_login) (password ada_login)]
   \<and> fetches (snd (snd (login_submit accepts_ada example_base (server 200 None) ada_login
                          LoginPageContent_init)))
     = [login_request example_base (email ada_login) (password ada_login)]
   \<and> fetches (snd (handleSubmit example_base (server 200 None) ada_page))
     = [login_request example_base (login_email ada_page) (login_password ada_page)]
   \<and> fetches (snd (handleSignUp engine accepts_ada example_base (server 200 None)
                     (SignUpPage_init\<lparr>formData := ada\<rparr>)))
     = [signup_request example_base ada]
   \<and> login_request example_base (js ''ada@example.com'') (js ''secret1'') =
        \<lparr>req_url = js ''https://api.example.com'' @ js ''/api/auth/login'', req_method = POST,
         req_headers = [(js ''Content-Type'', js ''application/json'')],
         req_body = Some (login_body (js ''ada@example.com'') (js ''secret1'')),
         req_credentials = Some Include\<rparr>
   \<and> signup_request example_base ada =
        \<lparr>req_url = js ''https://api.example.com'' @ js ''/api/auth/signup'', req_method = POST,
         req_headers = [(js ''Content-Type'', js ''application/json'')],
         req_body = Some (signup_payload ada), req_credentials = None\<rparr>"
proof -
  have b: "example_base = Some (js ''https://api.example.com'')"
    by (simp add: example_base_def)
  have n: "js ''https://api.example.com'' \<noteq> []"
    by (simp add: js_nonempty)
  show ?thesis
    using one_post_per_submission [OF b n, where net = "server 200 None" and d = ada_login
        and s = LoginPageContent_init and is_email = accepts_ada and data = ada_login
        and t = ada_page and u = "SignUpPage_init\<lparr>formData := ada\<rparr>" and data' = ada
        and rt = engine and e = "js ''ada@example.com''" and p = "js ''secret1''"]
      ada_login_valid ada_page_filled ada_valid
    by simp
qed

text \<open>The signup request of a valid record carries no credentials option.\<close>

theorem one_post_per_submission_counterexample:
  "map req_credentials
     (fetches (snd (handleSignUp engine accepts_ada example_base (server 201 None)
                      (SignUpPage_init\<lparr>formData := ada\<rparr>))))
   = [None]"
  by (simp add: fetches_handleSignUp ada_issues example_base_configured signup_request_def)

subsection \<open>No base URL\<close>

text \<open>
  C2 (as the code has it): while the base URL is not configured no submit attempt
  calls fetch, on any page and for any input. The outcome is the configuration error
  when the record passes the page's validation, which runs first: \<^verbatim>\<open>onSubmit\<close>
  (called with a validated record) only raises the configuration toast, the second
  login page does so when both fields are filled, and the signup page sets its
  configuration error when the schema accepts the form.
\<close>

theorem unconfigured_submit:
  assumes "unconfigured base"
  shows "onSubmit base net d s =
           (s, [Toast Toast_error (js ''Configuration error: Cannot perform login.'') JUndefined])
       \<and> fetches (snd (snd (login_submit is_email base net d s))) = []
       \<and> fetches (snd (handleSubmit base net t)) = []
       \<and> (login_email t \<noteq> [] \<and> login_password t \<noteq> [] \<longrightarrow>
            handleSubmit base net t =
              (t, [Toast Toast_error (js ''Configuration error: Cannot connect to services'')
                     JUndefined]))
       \<and> fetches (snd (handleSignUp rt is_email base net u)) = []
       \<and> (safeParse is_email (formData u) = Inr data \<longrightarrow>
            handleSignUp rt is_email base net u =
              (u\<lparr>signup_error := Some (js ''Configuration error. Cannot proceed with signup.''),
                 formErrors := []\<rparr>,
               [Toast Toast_error (js ''Configuration Error'') JUndefined]))"
proof -
  have 1: "onSubmit base net d' s =
           (s, [Toast Toast_error (js ''Configuration error: Cannot perform login.'') JUndefined])" for d'
    using assms by (simp add: onSubmit_def)
  have 2: "fetches (snd (snd (login_submit is_email base net d s))) = []"
    by (simp add: login_submit_def 1 fetches_simps split: sum.split)
  have 3: "fetches (snd (handleSubmit base net t)) = []"
    using assms by (simp add: handleSubmit_def fetches_simps)
  have 4: "login_email t \<noteq> [] \<and> login_password t \<noteq> [] \<longrightarrow>
            handleSubmit base net t =
              (t, [Toast Toast_error (js ''Configuration error: Cannot connect to services'')
                     JUndefined])"
    using assms by (simp add: handleSubmit_def)
  have 5: "fetches (snd (handleSignUp rt is_email base net u)) = []"
    using assms by (simp add: fetches_handleSignUp)
  have 6: "safeParse is_email (formData u) = Inr data \<longrightarrow>
            handleSignUp rt is_email base net u =
              (u\<lparr>signup_error := Some (js ''Configuration error. Cannot proceed with signup.''),
                 formErrors := []\<rparr>,
               [Toast Toast_error (js ''Configuration Error'') JUndefined])"
    using assms
    by (auto simp add: handleSignUp_def begin_valid safeParse_issues split: if_splits)
  from 1 2 3 4 5 6 show ?thesis by blast
qed

theorem unconfigured_submit_witness:
  "onSubmit None (server 200 None) ada_login LoginPageContent_init =
     (LoginPageContent_init,
      [Toast Toast_error (js ''Configuration error: Cannot perform login.'') JUndefined])
   \<and> fetches (snd (snd (login_submit accepts_ada None (server 200 None) ada_login
                          LoginPageContent_init))) = []
   \<and> fetches (snd (handleSubmit None (server 200 None) ada_page)) = []
   \<and> handleSubmit None (server 200 None) ada_page =
       (ada_page, [Toast Toast_error (js ''Configuration error: Cannot connect to services'')
                     JUndefined])
   \<and> fetches (snd (handleSignUp engine accepts_ada None (server 200 None)
                     (SignUpPage_init\<lparr>formData := ada\<rparr>))) = []
   \<and> handleSignUp engine accepts_ada None (server 200 None) (SignUpPage_init\<lparr>formData := ada\<rparr>) =
       (SignUpPage_init\<lparr>formData := ada,
          signup_error := Some (js ''Configuration error. Cannot proceed with signup.''),
          formErrors := []\<rparr>,
        [Toast Toast_error (js ''Configuration Error'') JUndefined])"
proof -
  have u: "unconfigured None"
    by (simp add: unconfigured_def)
  show ?thesis
    using unconfigured_submit [OF u, where net = "server 200 None" and d = ada_login
        and s = LoginPageContent_init and is_email = accepts_ada
        and t = ada_page and u = "SignUpPage_init\<lparr>formData := ada\<rparr>" and data = ada
        and rt = engine]
      ada_page_filled ada_valid
    by (simp add: fetches_simps)
qed

text \<open>
  Submitting the empty signup form without a base URL reports the field errors, and
  no configuration error.
\<close>

theorem unconfigured_submit_counterexample:
  "unconfigured None
   \<and> signup_error (fst (handleSignUp engine accepts_ada None (server 200 None) SignUpPage_init)) = None
   \<and> getErrorMessage
        (formErrors (fst (handleSignUp engine accepts_ada None (server 200 None) SignUpPage_init)))
        Name = Some (js ''Full name is required'')
   \<and> Toast Toast_error (js ''Configuration Error'') JUndefined
        \<notin> set (snd (handleSignUp engine accepts_ada None (server 200 None) SignUpPage_init))"
proof -
  have fd: "formData SignUpPage_init = initialState"
    by (simp add: SignUpPage_init_def)
  have nm: "msgs Name (signUp_issues accepts_ada (formData SignUpPage_init))
              = [js ''Full name is required'']"
    by (simp only: fd empty_form_name)
  then have ne: "signUp_issues accepts_ada (formData SignUpPage_init) \<noteq> []"
    by (auto simp add: msgs_simps)
  have lit: "js ''Configuration Error'' \<noteq> js ''Please fix the errors marked below.''"
    by (simp add: js_def)
  have run: "handleSignUp engine accepts_ada None (server 200 None) SignUpPage_init =
     (SignUpPage_init\<lparr>signup_error := None,
        formErrors := fieldErrors (signUp_issues accepts_ada (formData SignUpPage_init))\<rparr>,
      Toast Toast_error (js ''Please fix the errors marked below.'') JUndefined
        # (case fieldErrors (signUp_issues accepts_ada (formData SignUpPage_init)) of
             [] \<Rightarrow> [] | (f, ms) # rest \<Rightarrow> [Focus (field_key f)]))"
    by (simp add: handleSignUp_def begin_invalid [OF ne])
  show ?thesis
    by (simp add: run unconfigured_def getErrorMessage_fieldErrors nm lit js_nonempty
        split: list.split)
qed

subsection \<open>The Validator\<close>

lemma padded_mobile_rejected:
  "msgs MobileNumber (signUp_issues accepts_ada ada_padded_mobile)
     = [js ''Please enter a valid mobile number.'', js ''Please enter a valid mobile number.'']"
  by (simp add: msgs_signUp_issues ada_padded_mobile_def)
     (simp add: trim_def is_space_def mobile_regex_def js_def)

lemma padded_email_issues: "signUp_issues accepts_ada ada_padded_email = []"
  unfolding issues_empty_iff
proof
  fix f
  have t: "trim (ada g) = ada g" for g
    by (cases g) (simp_all add: ada_def trim_def is_space_def js_def)
  have e: "trim (js '' ada@example.com '') = js ''ada@example.com''"
    by (simp add: trim_def is_space_def js_def)
  show "msgs f (signUp_issues accepts_ada ada_padded_email) = []"
    by (cases f)
       (simp_all add: msgs_signUp_issues ada_padded_email_def t e,
        simp_all add: ada_def accepts_ada_def mobile_regex_def js_def is_digit_def is_space_def)
qed

text \<open>
  C3 (as the code has it): for every record the validation of either page is a total
  function without effects whose result is ``valid'' or the map from each invalid field
  to the message of its first violated rule, the rules taken in order. For a login
  these are the rules of the specification: the email not empty, then its shape; the
  password at least 6 long (the schema has the shape test only, which agrees because
  no email shape accepts the empty string). For a registration they are the amended
  rules: name, email and mobile number are read without the white space around them;
  the name is not empty; the email is not empty, then of the shape; the password is at
  least 6 long; the mobile number is at least 8 long and an optional plus sign followed
  by at least eight digits, white space characters or hyphens; the confirmation is not
  empty, then equal to the password, both reported under \<^verbatim>\<open>confirmPassword\<close>.
\<close>

theorem validator_refines:
  assumes "\<not> is_email []"
  shows "validate_signup is_email d = Validator_signUpSchema is_email d
       \<and> validate_login is_email c = Validator_login is_email c"
proof -
  have signup: "validate_signup is_email d = Validator_signUpSchema is_email d"
  proof (cases "signUp_issues is_email d = []")
    case True
    then have "\<forall>f. msgs f (signUp_issues is_email d) = []" by (simp add: msgs_simps)
    then show ?thesis
      by (simp add: validate_signup_def safeParse_issues True Validator_signUpSchema_def
          first_violated_signUpSchema all_fields_def)
  next
    case False
    then obtain f where f: "msgs f (signUp_issues is_email d) \<noteq> []"
      using issues_empty_iff by blast
    then have nv: "\<not> list_all (\<lambda>f. first_violated (signUpSchema_rules is_email f) d = None)
                       all_fields"
      by (cases f) (auto simp add: first_violated_signUpSchema all_fields_def split: list.splits)
    have "getErrorMessage (fieldErrors (signUp_issues is_email d)) g
            = first_violated (signUpSchema_rules is_email g) d" for g
      by (auto simp add: getErrorMessage_fieldErrors first_violated_signUpSchema
          dest: first_msg_nonempty split: list.split)
    then show ?thesis
      by (simp add: validate_signup_def safeParse_issues False Validator_signUpSchema_def nv
          fun_eq_iff)
  qed
  have login: "validate_login is_email c = Validator_login is_email c"
    using assms
    by (auto simp add: validate_login_def formSchema_errors Validator_login_def
        first_violated_login fun_eq_iff split: login_field.split)
  from signup login show ?thesis by simp
qed

theorem validator_refines_witness:
  "\<not> accepts_ada []
   \<and> validate_signup accepts_ada ada = Validator_signUpSchema accepts_ada ada
   \<and> validate_signup accepts_ada ada = Valid
   \<and> validate_signup accepts_ada ada_padded_mobile
       = Validator_signUpSchema accepts_ada ada_padded_mobile
   \<and> validate_signup accepts_ada ada_padded_mobile \<noteq> Valid
   \<and> validate_login accepts_ada ada_login = Validator_login accepts_ada ada_login
   \<and> validate_login accepts_ada ada_login = Valid"
proof -
  have "signUp_issues accepts_ada ada_padded_mobile \<noteq> []"
    using padded_mobile_rejected by (auto simp add: msgs_simps)
  then have r: "validate_signup accepts_ada ada_padded_mobile \<noteq> Valid"
    by (simp add: validate_signup_def safeParse_issues)
  show ?thesis
    using validator_refines [where is_email = accepts_ada and d = ada and c = ada_login]
      validator_refines [where is_email = accepts_ada and d = ada_padded_mobile and c = ada_login]
      r
    by (simp add: accepts_ada_empty validate_signup_def ada_valid validate_login_def
        ada_login_valid)
qed

text \<open>
  By the rules as the specification lists them, a mobile number of seven digits with
  a space on either side is valid (nine characters, all allowed), and the page rejects
  it; an email address with a space on either side is not of the shape of an email, and
  the page accepts it.
\<close>

theorem validator_refines_counterexample:
  "Validator_signup accepts_ada ada_padded_mobile = Valid
   \<and> validate_signup accepts_ada ada_padded_mobile \<noteq> Valid
   \<and> Validator_signup accepts_ada ada_padded_email \<noteq> Valid
   \<and> validate_signup accepts_ada ada_padded_email = Valid"
proof -
  have 1: "Validator_signup accepts_ada ada_padded_mobile = Valid"
    by (simp add: Validator_signup_def all_fields_def first_violated_def ada_padded_mobile_def
        ada_def accepts_ada_def spec_pattern_def)
       (simp add: js_def)
  have "signUp_issues accepts_ada ada_padded_mobile \<noteq> []"
    using padded_mobile_rejected by (auto simp add: msgs_simps)
  then have 2: "validate_signup accepts_ada ada_padded_mobile \<noteq> Valid"
    by (simp add: validate_signup_def safeParse_issues)
  have "first_violated (signup_rules accepts_ada Email) ada_padded_email
          = Some (js ''Email address is invalid'')"
    by (simp add: first_violated_def ada_padded_email_def accepts_ada_def) (simp add: js_def)
  then have 3: "Validator_signup accepts_ada ada_padded_email \<noteq> Valid"
    by (simp add: Validator_signup_def all_fields_def)
  have 4: "validate_signup accepts_ada ada_padded_email = Valid"
    by (simp add: validate_signup_def safeParse_issues padded_email_issues)
  from 1 2 3 4 show ?thesis by simp
qed

subsection \<open>The signup request body\<close>

text \<open>
  C4 (as the code has it): for a form the schema accepts, the body of the one request
  is the JSON object with the keys \<^verbatim>\<open>name\<close>, \<^verbatim>\<open>email\<close>, \<^verbatim>\<open>mobileNumber\<close>
  and \<^verbatim>\<open>password\<close>, in this order and without \<^verbatim>\<open>confirmPassword\<close>; name, email
  and password are those of the parsed record (the form's, name and email trimmed), and
  the mobile number is the parsed one with all white space removed.
\<close>

theorem signup_body:
  assumes "base = Some b" and "b \<noteq> []" and "safeParse is_email (formData s) = Inr data"
  shows "map req_body (fetches (snd (handleSignUp rt is_email base net s))) =
           [Some (JObj [(js ''name'', JStr (data Name)),
                        (js ''email'', JStr (data Email)),
                        (js ''mobileNumber'', JStr (remove_spaces (data MobileNumber))),
                        (js ''password'', JStr (data Password))])]
       \<and> data = parsed (formData s)"
proof -
  have cfg: "\<not> unconfigured base"
    using assms by (simp add: unconfigured_def)
  from assms(3) have v: "signUp_issues is_email (formData s) = []" and d: "data = parsed (formData s)"
    by (auto simp add: safeParse_issues split: if_splits)
  show ?thesis
    using cfg
    by (simp add: fetches_handleSignUp v d signup_request_def signup_payload_def
        remove_spaces_trim)
qed

theorem signup_body_witness:
  "map req_body
     (fetches (snd (handleSignUp engine accepts_ada example_base (server 200 None)
                      (SignUpPage_init\<lparr>formData := ada\<rparr>))))
     = [Some (JObj [(js ''name'', JStr (ada Name)),
                    (js ''email'', JStr (ada Email)),
                    (js ''mobileNumber'', JStr (remove_spaces (ada MobileNumber))),
                    (js ''password'', JStr (ada Password))])]
   \<and> ada = parsed ada"
proof -
  have b: "example_base = Some (js ''https://api.example.com'')"
    by (simp add: example_base_def)
  have n: "js ''https://api.example.com'' \<noteq> []"
    by (simp add: js_nonempty)
  have v: "safeParse accepts_ada (formData (SignUpPage_init\<lparr>formData := ada\<rparr>)) = Inr ada"
    by (simp add: ada_valid)
  show ?thesis
    using signup_body [OF b n v, of engine "server 200 None"] by simp
qed

text \<open>A mobile number written with spaces is not sent as it was validated.\<close>

theorem signup_body_counterexample:
  "(case safeParse accepts_ada ada of Inr data \<Rightarrow> data MobileNumber | Inl issues \<Rightarrow> [])
     = js ''+91 98765 43210''
   \<and> map req_body
       (fetches (snd (handleSignUp engine accepts_ada example_base (server 201 None)
                        (SignUpPage_init\<lparr>formData := ada\<rparr>))))
     = [Some (JObj [(js ''name'', JStr (js ''Ada Lovelace'')),
                    (js ''email'', JStr (js ''ada@example.com'')),
                    (js ''mobileNumber'', JStr (js ''+919876543210'')),
                    (js ''password'', JStr (js ''secret1''))])]"
proof -
  have m: "remove_spaces (trim (ada MobileNumber)) = js ''+919876543210''"
    by (simp add: remove_spaces_trim) (simp add: remove_spaces_def ada_def js_def is_space_def)
  show ?thesis
    by (simp add: fetches_handleSignUp ada_issues example_base_configured signup_request_def
        signup_payload_def safeParse_issues ada_parsed m)
       (simp add: ada_def)
qed

subsection \<open>Login: the message of a rejected login\<close>

text \<open>
  C5: when the login endpoint answers with status 401 and the body
  \<^verbatim>\<open>{"error":"Invalid credentials"}\<close>, the error the page displays is exactly
  ``Invalid credentials''. This holds for \<^verbatim>\<open>onSubmit\<close> of the login page and for
  \<^verbatim>\<open>handleSubmit\<close> of the second login page (which sends a request only when both
  fields are filled).
\<close>

theorem login_invalid_credentials:
  assumes "\<not> unconfigured base"
    and "res_status res = 401"
    and "res_json res = Some (JObj [(js ''error'', JStr (js ''Invalid credentials''))])"
  shows "(net (login_request base (email d) (password d)) = Resolved res
            \<longrightarrow> error (fst (onSubmit base net d s)) = JStr (js ''Invalid credentials''))
       \<and> (login_email t \<noteq> [] \<and> login_password t \<noteq> []
            \<and> net (login_request base (login_email t) (login_password t)) = Resolved res
            \<longrightarrow> login_error (fst (handleSubmit base net t)) = JStr (js ''Invalid credentials''))"
  using assms
  by (simp add: onSubmit_def handleSubmit_def Let_def not_ok_401 onSubmit_errorMessage_def
      js_or_def js_nonempty)

theorem login_invalid_credentials_witness:
  "error (fst (onSubmit (Some (js ''https://api.example.com''))
        (\<lambda>r. Resolved \<lparr>res_status = 401, res_text = [],
           res_json = Some (JObj [(js ''error'', JStr (js ''Invalid credentials''))])\<rparr>)
        \<lparr>email = js ''ada@example.com'', password = js ''wrong-password''\<rparr>
        LoginPageContent_init)) = JStr (js ''Invalid credentials'')
   \<and> login_error (fst (handleSubmit (Some (js ''https://api.example.com''))
        (\<lambda>r. Resolved \<lparr>res_status = 401, res_text = [],
           res_json = Some (JObj [(js ''error'', JStr (js ''Invalid credentials''))])\<rparr>)
        \<lparr>login_email = js ''ada@example.com'', login_password = js ''wrong-password'',
          login_error = JNull, login_loading = False\<rparr>)) = JStr (js ''Invalid credentials'')"
  using login_invalid_credentials [of "Some (js ''https://api.example.com'')"
      "\<lparr>res_status = 401, res_text = [],
           res_json = Some (JObj [(js ''error'', JStr (js ''Invalid credentials''))])\<rparr>"
      "\<lambda>r. Resolved \<lparr>res_status = 401, res_text = [],
           res_json = Some (JObj [(js ''error'', JStr (js ''Invalid credentials''))])\<rparr>"
      "\<lparr>email = js ''ada@example.com'', password = js ''wrong-password''\<rparr>"
      LoginPageContent_init
      "\<lparr>login_email = js ''ada@example.com'', login_password = js ''wrong-password'',
          login_error = JNull, login_loading = False\<rparr>"]
  by (simp add: unconfigured_def js_nonempty)

subsection \<open>Login: a response that is not ok and has no JSON body\<close>

text \<open>
  C6 (as the code has it): when a login request is answered with a status N that is
  not a success and a body that is no JSON, \<^verbatim>\<open>onSubmit\<close> of the login page sets
  the error to ``Login failed (status N)'', which contains ``status N'', and
  \<^verbatim>\<open>handleSubmit\<close> of the second login page sets it to the fixed text
  ``Invalid credentials''. Neither sends a second request.
\<close>

theorem login_status_fallback:
  assumes "\<not> unconfigured base" and "\<not> ok res" and "res_json res = None"
  shows "(net (login_request base (email d) (password d)) = Resolved res \<longrightarrow>
            error (fst (onSubmit base net d s)) = JStr (login_failed_status (res_status res))
          \<and> js_includes (login_failed_status (res_status res))
               (js ''status '' @ show_nat (res_status res))
          \<and> fetches (snd (onSubmit base net d s)) = [login_request base (email d) (password d)])
       \<and> (login_email t \<noteq> [] \<and> login_password t \<noteq> []
            \<and> net (login_request base (login_email t) (login_password t)) = Resolved res \<longrightarrow>
            login_error (fst (handleSubmit base net t)) = JStr (js ''Invalid credentials'')
          \<and> fetches (snd (handleSubmit base net t))
              = [login_request base (login_email t) (login_password t)])"
  using assms
  by (simp add: onSubmit_def handleSubmit_def Let_def onSubmit_errorMessage_def
      js_or_def js_nonempty fetches_simps login_failed_status_includes)

theorem login_status_fallback_witness:
  "error (fst (onSubmit example_base (server 500 None) ada_login LoginPageContent_init))
     = JStr (js ''Login failed (status 500)'')
   \<and> js_includes (js ''Login failed (status 500)'') (js ''status 500'')
   \<and> fetches (snd (onSubmit example_base (server 500 None) ada_login LoginPageContent_init))
     = [login_request example_base (email ada_login) (password ada_login)]
   \<and> login_error (fst (handleSubmit example_base (server 500 None) ada_page))
     = JStr (js ''Invalid credentials'')
   \<and> fetches (snd (handleSubmit example_base (server 500 None) ada_page))
     = [login_request example_base (login_email ada_page) (login_password ada_page)]"
proof -
  have r: "\<not> ok \<lparr>res_status = 500, res_text = [], res_json = None\<rparr>"
    by (simp add: ok_def)
  have j: "res_json \<lparr>res_status = 500, res_text = [], res_json = None\<rparr> = None"
    by simp
  have l: "login_failed_status 500 = js ''Login failed (status 500)''"
    by (simp add: login_failed_status_def show_nat_500) (simp add: js_def)
  have m: "js ''status '' @ show_nat 500 = js ''status 500''"
    by (simp add: show_nat_500) (simp add: js_def)
  show ?thesis
    using login_status_fallback [OF example_base_configured r j, where net = "server 500 None"
        and d = ada_login and t = ada_page and s = LoginPageContent_init] ada_page_filled
    by (simp add: server_def l m)
qed

text \<open>On a status 500 without JSON the second login page names no status.\<close>

theorem login_status_fallback_counterexample:
  "login_error (fst (handleSubmit example_base (server 500 None) ada_page))
     = JStr (js ''Invalid credentials'')
   \<and> \<not> js_includes (js ''Invalid credentials'') (js ''status 500'')"
proof -
  have "\<not> js_includes (js ''Invalid credentials'') (js ''status 500'')"
    by (simp add: js_def)
  then show ?thesis
    using ada_page_filled
    by (simp add: handleSubmit_def example_base_configured server_def ok_def Let_def js_or_def)
qed

subsection \<open>The session check\<close>

text \<open>
  C7 (as the code has it): on the first display of the login page the session check
  sends no request when the base URL is not configured, and the form is rendered.
  Otherwise it sends exactly one GET to the base URL followed by
  \<^verbatim>\<open>/api/auth/session\<close> with \<^verbatim>\<open>credentials: 'include'\<close>, and never a second one.
  It redirects to \<^verbatim>\<open>/\<close>, leaving the loading screen in place of the form, exactly
  when the request resolves with an ok status and a body that carries a user payload;
  in every other case (status not ok, no user, no JSON, rejected request) the form is
  rendered and there is no redirect.
\<close>

theorem sessionCheck_outcome:
  assumes "checkingAuth s"
  shows "(unconfigured base \<longrightarrow>
            fetches (snd (sessionCheck base net s)) = []
          \<and> renders_form (fst (sessionCheck base net s)))
       \<and> (base = Some b \<and> b \<noteq> [] \<longrightarrow>
            fetches (snd (sessionCheck base net s)) = [session_request base]
          \<and> session_request base =
              \<lparr>req_url = b @ js ''/api/auth/session'', req_method = GET, req_headers = [],
               req_body = None, req_credentials = Some Include\<rparr>
          \<and> (renders_form (fst (sessionCheck base net s))
               \<longleftrightarrow> \<not> (\<exists>res. net (session_request base) = Resolved res \<and> ok res \<and> has_user res))
          \<and> (Router_push (js ''/'') \<in> set (snd (sessionCheck base net s))
               \<longleftrightarrow> \<not> renders_form (fst (sessionCheck base net s))))"
  using assms
  by (auto simp add: sessionCheck_def renders_form_def fetches_simps session_request_def Let_def
      user_truthy_iff unconfigured_def template_def
      split: fetch_result.split option.splits)

theorem sessionCheck_outcome_witness:
  "fetches (snd (sessionCheck None (server 200 None) LoginPageContent_init)) = []
   \<and> renders_form (fst (sessionCheck None (server 200 None) LoginPageContent_init))
   \<and> fetches (snd (sessionCheck example_base
        (server 200 (Some (JObj [(js ''user'', JObj [(js ''email'', JStr (js ''ada@example.com''))])])))
        LoginPageContent_init)) = [session_request example_base]
   \<and> \<not> renders_form (fst (sessionCheck example_base
        (server 200 (Some (JObj [(js ''user'', JObj [(js ''email'', JStr (js ''ada@example.com''))])])))
        LoginPageContent_init))
   \<and> Router_push (js ''/'') \<in> set (snd (sessionCheck example_base
        (server 200 (Some (JObj [(js ''user'', JObj [(js ''email'', JStr (js ''ada@example.com''))])])))
        LoginPageContent_init))"
proof -
  have c: "checkingAuth LoginPageContent_init"
    by (simp add: LoginPageContent_init_def)
  have u: "unconfigured None"
    by (simp add: unconfigured_def)
  have b: "example_base = Some (js ''https://api.example.com'') \<and> js ''https://api.example.com'' \<noteq> []"
    by (simp add: example_base_def js_nonempty)
  have k: "ok \<lparr>res_status = 200, res_text = [],
             res_json = Some (JObj [(js ''user'', JObj [(js ''email'', JStr (js ''ada@example.com''))])])\<rparr>"
    by (simp add: ok_def)
  show ?thesis
    using sessionCheck_outcome [OF c, where base = None and net = "server 200 None"
        and b = "js ''https://api.example.com''"]
      sessionCheck_outcome [OF c, where base = example_base and net =
        "server 200 (Some (JObj [(js ''user'', JObj [(js ''email'', JStr (js ''ada@example.com''))])]))"
        and b = "js ''https://api.example.com''"]
      u b k has_user_example [of 200]
    by (simp add: server_def)
qed

text \<open>A response with a user payload and status 500 does not redirect.\<close>

theorem sessionCheck_outcome_counterexample:
  "has_user \<lparr>res_status = 500, res_text = [],
             res_json = Some (JObj [(js ''user'', JObj [(js ''email'', JStr (js ''ada@example.com''))])])\<rparr>
   \<and> sessionCheck example_base
        (server 500 (Some (JObj [(js ''user'', JObj [(js ''email'', JStr (js ''ada@example.com''))])])))
        LoginPageContent_init
     = (LoginPageContent_init\<lparr>checkingAuth := False\<rparr>, [Fetch (session_request example_base)])
   \<and> renders_form (LoginPageContent_init\<lparr>checkingAuth := False\<rparr>)"
  by (simp add: has_user_example sessionCheck_def example_base_configured server_def ok_def
      renders_form_def)

subsection \<open>Passwords that do not match\<close>

text \<open>
  C8 (as the code has it): a signup form whose confirmation differs from the password
  is not submitted: \<^verbatim>\<open>handleSignUp\<close> stops before any request and the error map has
  an entry for \<^verbatim>\<open>confirmPassword\<close> that contains ``Passwords do not match''. Editing
  the confirmation then always clears the entry. Editing the password clears it when
  the confirmation was not empty, which is when the mismatch is the message shown.
\<close>

theorem mismatch_blocks_submission:
  assumes "formData s ConfirmPassword \<noteq> formData s Password"
  shows "snd (snd (handleSignUp_begin is_email base s)) = None
       \<and> fetches (snd (handleSignUp rt is_email base net s)) = []
       \<and> (\<exists>ms. map_of (formErrors (fst (handleSignUp_begin is_email base s))) ConfirmPassword
                  = Some ms \<and> js ''Passwords do not match'' \<in> set ms)
       \<and> map_of (formErrors (handleChange ConfirmPassword v
                    (fst (handleSignUp_begin is_email base s)))) ConfirmPassword = None
       \<and> (formData s ConfirmPassword \<noteq> [] \<longrightarrow>
            getErrorMessage (formErrors (fst (handleSignUp_begin is_email base s))) ConfirmPassword
              = Some (js ''Passwords do not match'')
          \<and> map_of (formErrors (handleChange Password v
                       (fst (handleSignUp_begin is_email base s)))) ConfirmPassword = None)"
proof -
  have m: "msgs ConfirmPassword (signUp_issues is_email (formData s)) =
      (if formData s ConfirmPassword = [] then [js ''Please confirm your password.''] else [])
      @ [js ''Passwords do not match'']"
    using assms by (auto simp add: msgs_signUp_issues)
  then have ne: "signUp_issues is_email (formData s) \<noteq> []"
    by (auto simp add: msgs_simps)
  have e: "map_of (formErrors (fst (handleSignUp_begin is_email base s))) ConfirmPassword =
      Some ((if formData s ConfirmPassword = [] then [js ''Please confirm your password.''] else [])
            @ [js ''Passwords do not match''])"
    by (simp add: begin_invalid [OF ne] map_of_fieldErrors m)
  have 1: "snd (snd (handleSignUp_begin is_email base s)) = None"
    by (simp add: begin_invalid [OF ne])
  have 2: "fetches (snd (handleSignUp rt is_email base net s)) = []"
    by (simp add: fetches_handleSignUp ne)
  have 3: "\<exists>ms. map_of (formErrors (fst (handleSignUp_begin is_email base s))) ConfirmPassword
                  = Some ms \<and> js ''Passwords do not match'' \<in> set ms"
    by (simp add: e)
  have 4: "map_of (formErrors (handleChange ConfirmPassword v
                    (fst (handleSignUp_begin is_email base s)))) ConfirmPassword = None"
    by (simp add: map_of_handleChange)
  have 5: "formData s ConfirmPassword \<noteq> [] \<longrightarrow>
            getErrorMessage (formErrors (fst (handleSignUp_begin is_email base s))) ConfirmPassword
              = Some (js ''Passwords do not match'')
          \<and> map_of (formErrors (handleChange Password v
                       (fst (handleSignUp_begin is_email base s)))) ConfirmPassword = None"
    by (simp add: map_of_handleChange mismatch_shown_def getErrorMessage_def e js_nonempty)
  from 1 2 3 4 5 show ?thesis by blast
qed

theorem mismatch_blocks_submission_witness:
  "snd (snd (handleSignUp_begin accepts_ada example_base
        (SignUpPage_init\<lparr>formData := ada(ConfirmPassword := js ''secret2'')\<rparr>))) = None
   \<and> fetches (snd (handleSignUp engine accepts_ada example_base (server 200 None)
        (SignUpPage_init\<lparr>formData := ada(ConfirmPassword := js ''secret2'')\<rparr>))) = []
   \<and> getErrorMessage (formErrors (fst (handleSignUp_begin accepts_ada example_base
        (SignUpPage_init\<lparr>formData := ada(ConfirmPassword := js ''secret2'')\<rparr>)))) ConfirmPassword
       = Some (js ''Passwords do not match'')
   \<and> map_of (formErrors (handleChange ConfirmPassword (js ''secret1'')
        (fst (handleSignUp_begin accepts_ada example_base
          (SignUpPage_init\<lparr>formData := ada(ConfirmPassword := js ''secret2'')\<rparr>))))) ConfirmPassword
       = None
   \<and> map_of (formErrors (handleChange Password (js ''secret2'')
        (fst (handleSignUp_begin accepts_ada example_base
          (SignUpPage_init\<lparr>formData := ada(ConfirmPassword := js ''secret2'')\<rparr>))))) ConfirmPassword
       = None"
proof -
  have ne: "js ''secret2'' \<noteq> js ''secret1''" and n2: "js ''secret2'' \<noteq> []"
    by (simp_all add: js_def)
  have h: "formData (SignUpPage_init\<lparr>formData := ada(ConfirmPassword := js ''secret2'')\<rparr>) ConfirmPassword
      \<noteq> formData (SignUpPage_init\<lparr>formData := ada(ConfirmPassword := js ''secret2'')\<rparr>) Password"
    using ne by (simp add: ada_def)
  show ?thesis
    using mismatch_blocks_submission [OF h, where is_email = accepts_ada and base = example_base
        and rt = engine and net = "server 200 None" and v = "js ''secret1''"]
      mismatch_blocks_submission [OF h, where is_email = accepts_ada and base = example_base
        and rt = engine and net = "server 200 None" and v = "js ''secret2''"] n2
    by simp
qed

text \<open>
  With an empty confirmation the entry starts with ``Please confirm your password.'',
  and editing the password leaves it in place.
\<close>

theorem mismatch_blocks_submission_counterexample:
  "(ada(ConfirmPassword := [])) ConfirmPassword \<noteq> (ada(ConfirmPassword := [])) Password
   \<and> map_of (formErrors (handleChange Password (js ''secret2'')
        (fst (handleSignUp_begin accepts_ada example_base
                (SignUpPage_init\<lparr>formData := ada(ConfirmPassword := [])\<rparr>))))) ConfirmPassword
     = Some [js ''Please confirm your password.'', js ''Passwords do not match'']"
proof -
  have p: "ada Password \<noteq> []" by (simp add: ada_def js_nonempty)
  have m: "msgs ConfirmPassword (signUp_issues accepts_ada (ada(ConfirmPassword := []))) =
      [js ''Please confirm your password.'', js ''Passwords do not match'']"
    using p by (simp add: msgs_signUp_issues)
  then have ne: "signUp_issues accepts_ada
      (formData (SignUpPage_init\<lparr>formData := ada(ConfirmPassword := [])\<rparr>)) \<noteq> []"
    by (auto simp add: msgs_simps)
  have lit: "js ''Please confirm your password.'' \<noteq> js ''Passwords do not match''"
    by (simp add: js_def)
  show ?thesis
    using p
    by (simp add: begin_invalid [OF ne] map_of_handleChange mismatch_shown_def
        map_of_fieldErrors m lit)
qed

subsection \<open>The field error map\<close>




subsection \<open>The greeting page\<close>


end
